theory Spec2Isabelle
  imports Main "HOL-Library.Sublist"
begin

section \<open>The schema object model\<close>

text \<open>
  The plugin \<^verbatim>\<open>plugins/document.schema/index.ts\<close> renders an introspected GraphQL
  schema as annotated schema-definition text. The entities it reads are declared in
  \<^verbatim>\<open>lib/interface\<close>; they are modelled here with the attributes the plugin accesses.
  A nullable string (\<^verbatim>\<open>description\<close>, \<^verbatim>\<open>deprecationReason\<close>) is a \<open>string option\<close>,
  \<open>None\<close> standing for \<^verbatim>\<open>null\<close>; a nullable object (the three root operation types)
  is an option as well. The kind tag ranges over the eight introspection kinds, of which
  the dispatcher handles six. The sequences a renderer maps over (\<^verbatim>\<open>args\<close>, \<^verbatim>\<open>fields\<close>,
  \<^verbatim>\<open>interfaces\<close>, \<^verbatim>\<open>possibleTypes\<close>, \<^verbatim>\<open>enumValues\<close>, \<^verbatim>\<open>inputFields\<close>, \<^verbatim>\<open>locations\<close>) are
  lists: the loader supplies them for the kinds that are rendered with them.
\<close>

datatype type_kind =
  SCALAR | OBJECT | INTERFACE | UNION | ENUM | INPUT_OBJECT | LIST | NON_NULL

datatype TypeRef =
  TypeRef (ref_kind: type_kind) (ref_name: string) (ofType: "TypeRef option")

record InputValue =
  iv_name :: string
  iv_description :: "string option"
  iv_type :: TypeRef

record Field =
  f_name :: string
  f_description :: "string option"
  f_args :: "InputValue list"
  f_type :: TypeRef
  f_isDeprecated :: bool
  f_deprecationReason :: "string option"

record EnumValue =
  ev_name :: string
  ev_description :: "string option"
  ev_isDeprecated :: bool
  ev_deprecationReason :: "string option"

record Directive =
  d_name :: string
  d_description :: "string option"
  d_args :: "InputValue list"
  d_locations :: "string list"

record SchemaType =
  t_kind :: type_kind
  t_name :: string
  t_description :: "string option"
  t_fields :: "Field list"
  t_interfaces :: "TypeRef list"
  t_possibleTypes :: "TypeRef list"
  t_enumValues :: "EnumValue list"
  t_inputFields :: "InputValue list"

record Schema =
  queryType :: "SchemaType option"
  mutationType :: "SchemaType option"
  subscriptionType :: "SchemaType option"
  types :: "SchemaType list"
  directives :: "Directive list"

text \<open>
  A \<^verbatim>\<open>SchemaType\<close> is passed where a \<^verbatim>\<open>TypeRef\<close> is expected (\<^verbatim>\<open>html.identifier(type)\<close>,
  \<^verbatim>\<open>html.useIdentifier(schema.queryType, ...)\<close>); \<open>as_ref\<close> is that upcast.
\<close>

definition as_ref :: "SchemaType \<Rightarrow> TypeRef" where
  "as_ref t = TypeRef (t_kind t) (t_name t) None"

section \<open>Collaborators of the plugin\<close>

text \<open>
  The markup helpers \<^verbatim>\<open>html.*\<close> (from \<^verbatim>\<open>lib/utility\<close>), the locator \<^verbatim>\<open>this.url\<close>
  (inherited from \<^verbatim>\<open>Plugin\<close>) and the \<^verbatim>\<open>word-wrap\<close> package are not part of the plugin's
  file. The renderers take them as a parameter: a record of functions, each a function of
  its arguments alone. The locator is applied to a value that may be \<^verbatim>\<open>null\<close> (see
  \<open>schema\<close> below), so its argument is an option; \<open>wrap\<close> takes the width first.
\<close>

record collab =
  html_line :: "string \<Rightarrow> string"
  html_tab :: "string \<Rightarrow> string"
  html_keyword :: "string \<Rightarrow> string"
  html_comment :: "string \<Rightarrow> string"
  html_property :: "string \<Rightarrow> string"
  html_highlight :: "string \<Rightarrow> string"
  html_value :: "string \<Rightarrow> string"
  html_identifier :: "TypeRef \<Rightarrow> string"
  html_useIdentifier :: "TypeRef \<Rightarrow> string \<Rightarrow> string"
  url :: "TypeRef option \<Rightarrow> string"
  wrap :: "nat \<Rightarrow> string \<Rightarrow> string"

section \<open>String primitives of the host language\<close>

definition newline :: char where
  "newline = CHR 0x0A"

text \<open>\<^verbatim>\<open>xs.join(sep)\<close>\<close>

fun join :: "string \<Rightarrow> string list \<Rightarrow> string" where
  "join sep [] = []"
| "join sep [x] = x"
| "join sep (x # y # ys) = x @ sep @ join sep (y # ys)"

text \<open>\<^verbatim>\<open>s.split('\n')\<close>: one more piece than there are newlines, so never an empty list.\<close>

fun split_nl :: "string \<Rightarrow> string list" where
  "split_nl [] = [[]]"
| "split_nl (x # xs) =
     (if x = newline then [] # split_nl xs
      else (case split_nl xs of [] \<Rightarrow> [[x]] | l # ls \<Rightarrow> (x # l) # ls))"

section \<open>The renderers\<close>

definition MAX_CODE_LEN :: nat where
  "MAX_CODE_LEN = 80"

text \<open>
  \<^verbatim>\<open>description(description)\<close>: the test \<^verbatim>\<open>if (description)\<close> fails for \<^verbatim>\<open>null\<close> and
  for the empty string.
\<close>

definition description :: "collab \<Rightarrow> string option \<Rightarrow> string list" where
  "description c d =
     (case d of
        None \<Rightarrow> []
      | Some body \<Rightarrow>
          if body = [] then []
          else map (\<lambda>l. html_comment c l) (split_nl (wrap c MAX_CODE_LEN body)))"

definition inputValue :: "collab \<Rightarrow> InputValue \<Rightarrow> string" where
  "inputValue c arg =
     (let argDescription = description c (iv_description arg)
      in join []
           (map (\<lambda>line. html_line c (html_tab c line))
              ([] @ argDescription @
               [html_property c (iv_name arg) @ '': '' @
                html_useIdentifier c (iv_type arg) (url c (Some (iv_type arg)))])))"

text \<open>
  \<^verbatim>\<open>arguments(fieldOrDirectives)\<close> reads only \<^verbatim>\<open>args\<close> of its parameter, which is what
  the model takes.
\<close>

definition arguments :: "collab \<Rightarrow> InputValue list \<Rightarrow> string" where
  "arguments c args =
     (if length args = 0 then []
      else ''('' @ join '', '' (map (\<lambda>arg. inputValue c arg) args) @ '')'')"

definition argumentDescription :: "collab \<Rightarrow> InputValue \<Rightarrow> string list" where
  "argumentDescription c arg =
     (let desc = (case iv_description arg of
                    None \<Rightarrow> ''['' @ html_highlight c ''Not documented'' @ '']''
                  | Some d \<Rightarrow> d)
      in description c (Some (html_highlight c (iv_name arg) @ '': '' @ desc)))"

definition argumentsDescription :: "collab \<Rightarrow> InputValue list \<Rightarrow> string list" where
  "argumentsDescription c args =
     (if length args = 0 then []
      else foldl (\<lambda>descriptions arg. descriptions @ argumentDescription c arg)
             [html_comment c ''Arguments''] args)"

text \<open>
  \<^verbatim>\<open>deprecated(fieldOrEnumVal)\<close> reads \<^verbatim>\<open>isDeprecated\<close> and \<^verbatim>\<open>deprecationReason\<close>;
  \<^verbatim>\<open>!deprecationReason\<close> holds for \<^verbatim>\<open>null\<close> and for the empty string.
\<close>

definition deprecated :: "collab \<Rightarrow> bool \<Rightarrow> string option \<Rightarrow> string" where
  "deprecated c isDeprecated deprecationReason =
     (if \<not> isDeprecated then []
      else (case deprecationReason of
              None \<Rightarrow> html_keyword c ''@deprecated''
            | Some reason \<Rightarrow>
                if reason = [] then html_keyword c ''@deprecated''
                else html_keyword c ''@deprecated'' @
                     ''( reason: '' @ html_value c ([CHR 0x22] @ reason @ [CHR 0x22] @ '' '') @ '' )''))"

definition directive :: "collab \<Rightarrow> Directive \<Rightarrow> string" where
  "directive c d =
     html_line c
       (html_keyword c ''directive'' @ '' '' @
        html_keyword c (''@'' @ d_name d) @ arguments c (d_args d) @ '' on '' @
        join '' | '' (map (\<lambda>location. html_keyword c location) (d_locations d)))"

definition enum :: "collab \<Rightarrow> SchemaType \<Rightarrow> string" where
  "enum c t =
     html_line c (html_keyword c ''enum'' @ '' '' @ html_identifier c (as_ref t) @ '' {'') @
     join []
       (map (\<lambda>line. html_line c (html_tab c line))
          (foldl (\<lambda>lines enumValue.
                    lines @ [[]] @ description c (ev_description enumValue) @
                    [html_property c (ev_name enumValue) @
                     deprecated c (ev_isDeprecated enumValue) (ev_deprecationReason enumValue)])
             [] (t_enumValues t))) @
     html_line c ''}''"

text \<open>
  \<^verbatim>\<open>field(field)\<close>: the \<^verbatim>\<open>push\<close> onto \<^verbatim>\<open>fieldDescription\<close> is the rebinding
  \<open>fieldDescription'\<close>.
\<close>

definition field :: "collab \<Rightarrow> Field \<Rightarrow> string" where
  "field c f =
     (let fieldDescription = description c (f_description f);
          argumentsDescription = argumentsDescription c (f_args f);
          fieldDescription' =
            (if length fieldDescription > 0 \<and> length argumentsDescription \<noteq> 0
             then fieldDescription @ [html_comment c []]
             else fieldDescription)
      in join []
           (map (\<lambda>line. html_line c (html_tab c line))
              ([] @ fieldDescription' @ argumentsDescription @
               [html_property c (f_name f) @ arguments c (f_args f) @ '': '' @
                html_useIdentifier c (f_type f) (url c (Some (f_type f))) @ '' '' @
                deprecated c (f_isDeprecated f) (f_deprecationReason f)])))"

definition fields :: "collab \<Rightarrow> SchemaType \<Rightarrow> string" where
  "fields c t =
     html_line c [] @ join (html_line c []) (map (\<lambda>f. field c f) (t_fields t))"

definition inputValues :: "collab \<Rightarrow> InputValue list \<Rightarrow> string" where
  "inputValues c ivs =
     join [] (map (\<lambda>iv. html_line c (html_tab c (inputValue c iv))) ivs)"

definition inputObject :: "collab \<Rightarrow> SchemaType \<Rightarrow> string" where
  "inputObject c t =
     html_line c (html_keyword c ''input'' @ '' '' @ html_identifier c (as_ref t) @ '' {'') @
     inputValues c (t_inputFields t) @
     html_line c ''}''"

definition interfaces :: "collab \<Rightarrow> SchemaType \<Rightarrow> string" where
  "interfaces c t =
     html_line c (html_keyword c ''interface'' @ '' '' @ html_identifier c (as_ref t) @ '' {'') @
     fields c t @
     html_line c ''}''"

text \<open>
  \<^verbatim>\<open>object(type)\<close>: the local \<^verbatim>\<open>interfaces\<close> is the joined text, and it is the length of
  that text which decides whether the \<^verbatim>\<open>implements\<close> clause is written.
\<close>

definition object :: "collab \<Rightarrow> SchemaType \<Rightarrow> string" where
  "object c t =
     (let interfaces =
            join '', '' (map (\<lambda>i. html_useIdentifier c i (url c (Some i))) (t_interfaces t));
          implement =
            (if length interfaces = 0 then []
             else '' '' @ html_keyword c ''implements'' @ '' '' @ interfaces)
      in html_line c
           (html_keyword c ''type'' @ '' '' @ html_identifier c (as_ref t) @ implement @ '' {'') @
         fields c t @
         html_line c ''}'')"

definition scalar :: "collab \<Rightarrow> SchemaType \<Rightarrow> string" where
  "scalar c t = html_line c (html_keyword c ''scalar'' @ '' '' @ html_identifier c (as_ref t))"

text \<open>
  \<^verbatim>\<open>schema(schema)\<close>: the three \<^verbatim>\<open>definition += ...\<close> are the successive bindings
  \<open>definition1\<close> to \<open>definition4\<close>. On the subscription line the locator is requested for
  \<^verbatim>\<open>schema.mutationType\<close>, whatever that holds.
\<close>

definition schema :: "collab \<Rightarrow> Schema \<Rightarrow> string" where
  "schema c s =
     (let definition0 = html_line c (html_keyword c ''schema'' @ '' {'');
          definition1 =
            (case queryType s of
               None \<Rightarrow> definition0
             | Some q \<Rightarrow>
                 definition0 @ html_line c [] @
                 join [] (map (\<lambda>line. html_line c (html_tab c line))
                            (description c (t_description q))) @
                 html_line c (html_tab c
                   (html_property c ''query'' @ '': '' @
                    html_useIdentifier c (as_ref q) (url c (map_option as_ref (queryType s))))));
          definition2 =
            (case mutationType s of
               None \<Rightarrow> definition1
             | Some m \<Rightarrow>
                 definition1 @ html_line c [] @
                 join [] (map (\<lambda>line. html_line c (html_tab c line))
                            (description c (t_description m))) @
                 html_line c (html_tab c
                   (html_property c ''mutation'' @ '': '' @
                    html_useIdentifier c (as_ref m) (url c (map_option as_ref (mutationType s))))));
          definition3 =
            (case subscriptionType s of
               None \<Rightarrow> definition2
             | Some u \<Rightarrow>
                 definition2 @ html_line c [] @
                 join [] (map (\<lambda>line. html_line c (html_tab c line))
                            (description c (t_description u))) @
                 html_line c (html_tab c
                   (html_property c ''subscription'' @ '': '' @
                    html_useIdentifier c (as_ref u) (url c (map_option as_ref (mutationType s))))));
          definition4 = definition3 @ html_line c ''}''
      in join (html_line c []) [definition4])"

definition union :: "collab \<Rightarrow> SchemaType \<Rightarrow> string" where
  "union c t =
     html_line c
       (html_keyword c ''union'' @ '' '' @ html_identifier c (as_ref t) @ '' = '' @
        join '' | '' (map (\<lambda>p. html_useIdentifier c p (url c (Some p))) (t_possibleTypes t)))"

section \<open>The dispatcher\<close>

text \<open>
  \<^verbatim>\<open>code(buildForType?)\<close> returns text or throws; the thrown \<^verbatim>\<open>TypeError\<close> with its
  message is the left summand. \<^verbatim>\<open>!buildForType\<close> holds when the argument is missing and
  when it is the empty string. A type found under a kind outside the six cases leaves the
  \<^verbatim>\<open>switch\<close> and reaches the \<^verbatim>\<open>throw\<close>.
\<close>

datatype error = TypeError string

definition code :: "collab \<Rightarrow> Schema \<Rightarrow> string option \<Rightarrow> error + string" where
  "code c document buildForType =
     (case buildForType of
        None \<Rightarrow> Inr (schema c document)
      | Some n \<Rightarrow>
          if n = [] then Inr (schema c document)
          else
            (case find (\<lambda>d. d_name d = n) (directives document) of
               Some d \<Rightarrow> Inr (directive c d)
             | None \<Rightarrow>
                 (case find (\<lambda>t. t_name t = n) (types document) of
                    Some t \<Rightarrow>
                      (case t_kind t of
                         SCALAR \<Rightarrow> Inr (scalar c t)
                       | OBJECT \<Rightarrow> Inr (object c t)
                       | INTERFACE \<Rightarrow> Inr (interfaces c t)
                       | UNION \<Rightarrow> Inr (union c t)
                       | ENUM \<Rightarrow> Inr (enum c t)
                       | INPUT_OBJECT \<Rightarrow> Inr (inputObject c t)
                       | _ \<Rightarrow> Inl (TypeError (''Unexpected type: '' @ n)))
                  | None \<Rightarrow> Inl (TypeError (''Unexpected type: '' @ n)))))"

section \<open>A concrete collaborator\<close>

text \<open>
  Modelled from the spec: the markup helpers, the locator and the wrapper are missing from
  the plugin's file, so the examples below run the renderers with a plain-text
  collaborator that follows the specification's words. A line contributes its text and one
  newline; indentation is two spaces; keywords, properties, highlights and values are the bare
  text; a comment is prefixed with \<^verbatim>\<open>#\<close>; an identifier is the type's name; a reference is
  the wrapped type signature with its \<^verbatim>\<open>!\<close> and \<^verbatim>\<open>[...]\<close> decorations, followed by the
  locator in angle brackets when one is supplied. Wrapping is greedy at spaces: a word
  goes on the current line while the line stays within the width, and a word longer than
  the width has a line of its own.
\<close>

fun type_text :: "TypeRef \<Rightarrow> string" where
  "type_text (TypeRef k n w) =
     (case w of
        None \<Rightarrow> n
      | Some r \<Rightarrow>
          if k = NON_NULL then type_text r @ ''!''
          else if k = LIST then ''['' @ type_text r @ '']''
          else n)"

fun words_of :: "string \<Rightarrow> string \<Rightarrow> string list" where
  "words_of cur [] = (if cur = [] then [] else [cur])"
| "words_of cur (x # xs) =
     (if x = CHR '' '' then (if cur = [] then words_of [] xs else cur # words_of [] xs)
      else words_of (cur @ [x]) xs)"

fun fill :: "nat \<Rightarrow> string \<Rightarrow> string list \<Rightarrow> string list" where
  "fill w cur [] = [cur]"
| "fill w cur (x # xs) =
     (if length cur + 1 + length x \<le> w then fill w (cur @ '' '' @ x) xs
      else cur # fill w x xs)"

definition wrap_greedy :: "nat \<Rightarrow> string \<Rightarrow> string" where
  "wrap_greedy w s =
     (case words_of [] s of [] \<Rightarrow> [] | x # xs \<Rightarrow> join [newline] (fill w x xs))"

definition markup :: "(TypeRef option \<Rightarrow> string) \<Rightarrow> collab" where
  "markup locator =
     \<lparr> html_line = (\<lambda>s. s @ [newline]),
       html_tab = (\<lambda>s. ''  '' @ s),
       html_keyword = (\<lambda>s. s),
       html_comment = (\<lambda>s. ''# '' @ s),
       html_property = (\<lambda>s. s),
       html_highlight = (\<lambda>s. s),
       html_value = (\<lambda>s. s),
       html_identifier = ref_name,
       html_useIdentifier = (\<lambda>r u. if u = [] then type_text r else type_text r @ ''<'' @ u @ ''>''),
       url = locator,
       wrap = wrap_greedy \<rparr>"

text \<open>No locator supplied: every reference is plain text.\<close>

definition plain :: collab where
  "plain = markup (\<lambda>r. [])"

text \<open>A locator per named type; \<^verbatim>\<open>null\<close> has the locator \<^verbatim>\<open>null.html\<close>.\<close>

definition page_of :: "TypeRef option \<Rightarrow> string" where
  "page_of r = (case r of None \<Rightarrow> ''null.html'' | Some t \<Rightarrow> ref_name t @ ''.html'')"

definition linked :: collab where
  "linked = markup page_of"

definition named :: "type_kind \<Rightarrow> string \<Rightarrow> SchemaType" where
  "named k n =
     \<lparr> t_kind = k, t_name = n, t_description = None, t_fields = [], t_interfaces = [],
       t_possibleTypes = [], t_enumValues = [], t_inputFields = [] \<rparr>"

section \<open>Specification vocabulary and example inputs\<close>

text \<open>
  The block the specification describes for one root operation: a blank line; the root
  type's description, when it has one that is not empty, wrapped at 80 columns, every
  physical line of the wrapped text as one indented comment line; and the indented line
  \<^verbatim>\<open><label>: <Type>\<close> whose reference carries the given locator. The definition is
  written from these words and does not use the renderer's \<open>description\<close>.
\<close>

definition root_block :: "collab \<Rightarrow> string \<Rightarrow> SchemaType \<Rightarrow> string \<Rightarrow> string" where
  "root_block c label t locator =
     html_line c [] @
     concat (map (\<lambda>l. html_line c (html_tab c (html_comment c l)))
       (case t_description t of
          None \<Rightarrow> []
        | Some body \<Rightarrow> if body = [] then [] else split_nl (wrap c 80 body))) @
     html_line c (html_tab c
       (html_property c label @ '': '' @ html_useIdentifier c (as_ref t) locator))"

definition Pet :: SchemaType where
  "Pet = (named UNION ''Pet'')
     \<lparr>t_possibleTypes := [TypeRef OBJECT ''Cat'' None, TypeRef OBJECT ''Dog'' None]\<rparr>"

definition Droid :: SchemaType where
  "Droid = (named OBJECT ''Droid'')
     \<lparr>t_interfaces := [TypeRef INTERFACE ''A'' None, TypeRef INTERFACE ''B'' None]\<rparr>"

definition id_arg :: "string option \<Rightarrow> InputValue" where
  "id_arg d = \<lparr>iv_name = ''id'', iv_description = d, iv_type = TypeRef SCALAR ''ID'' None\<rparr>"

definition user_field :: "string option \<Rightarrow> InputValue list \<Rightarrow> Field" where
  "user_field d as =
     \<lparr> f_name = ''user'', f_description = d, f_args = as, f_type = TypeRef OBJECT ''User'' None,
       f_isDeprecated = False, f_deprecationReason = None \<rparr>"

definition Subscription :: SchemaType where
  "Subscription = (named OBJECT ''S'')\<lparr>t_description := Some ''Live events''\<rparr>"

definition roots :: Schema where
  "roots =
     \<lparr> queryType = Some (named OBJECT ''Q''), mutationType = Some (named OBJECT ''M''),
       subscriptionType = Some Subscription, types = [], directives = [] \<rparr>"

text \<open>A schema in which the name \<^verbatim>\<open>Node\<close> is both a directive and a type.\<close>

definition demo :: Schema where
  "demo =
     \<lparr> queryType = Some (named OBJECT ''Query''), mutationType = None, subscriptionType = None,
       types = [named OBJECT ''Query'', named SCALAR ''Node''],
       directives =
         [\<lparr>d_name = ''Node'', d_description = None, d_args = [], d_locations = [''FIELD'']\<rparr>] \<rparr>"

section \<open>Facts about the primitives\<close>

lemma join_empty_sep: "join [] xs = concat xs"
  by (induction "[] :: string" xs rule: join.induct) simp_all

lemma join_Cons: "join sep (x # xs) = x @ concat (map (\<lambda>y. sep @ y) xs)"
  by (induction xs arbitrary: x) simp_all

lemma join_eq_Nil: "join sep xs = [] \<Longrightarrow> x \<in> set xs \<Longrightarrow> x = []"
  by (induction sep xs rule: join.induct) auto

lemma split_nl_nonempty: "split_nl s \<noteq> []"
  by (induction s) (simp_all split: list.split)

lemma find_absent: "n \<notin> set (map f xs) \<Longrightarrow> find (\<lambda>x. f x = n) xs = None"
  by (induction xs) auto

lemma find_present: "n \<in> set (map f xs) \<Longrightarrow> \<exists>x. find (\<lambda>x. f x = n) xs = Some x"
  by (induction xs) auto

lemma foldl_append_nonempty: "acc \<noteq> [] \<Longrightarrow> foldl (\<lambda>ds a. ds @ g a) acc xs \<noteq> []"
  by (induction xs arbitrary: acc) simp_all

section \<open>Facts about the renderers\<close>

lemma description_None: "description c None = []"
  by (simp add: description_def)

lemma description_empty: "description c (Some []) = []"
  by (simp add: description_def)

lemma description_text:
  "body \<noteq> [] \<Longrightarrow>
   description c (Some body) = map (html_comment c) (split_nl (wrap c MAX_CODE_LEN body))"
  by (simp add: description_def)

lemma description_nonempty:
  "(description c d \<noteq> []) = (\<exists>body. d = Some body \<and> body \<noteq> [])"
  by (cases d) (simp_all add: description_def split_nl_nonempty)

lemma description_url: "description (c\<lparr>url := locator\<rparr>) d = description c d"
  by (simp add: description_def split: option.split)

lemma argumentsDescription_nonempty: "(argumentsDescription c args \<noteq> []) = (args \<noteq> [])"
  by (simp add: argumentsDescription_def foldl_append_nonempty)

lemma root_block_description:
  "root_block c label t locator =
     html_line c [] @
     concat (map (\<lambda>l. html_line c (html_tab c l)) (description c (t_description t))) @
     html_line c (html_tab c
       (html_property c label @ '': '' @ html_useIdentifier c (as_ref t) locator))"
  by (cases "t_description t")
     (simp_all add: root_block_def description_def MAX_CODE_LEN_def comp_def)

lemma code_empty_name: "code c document (Some []) = Inr (schema c document)"
  by (simp add: code_def)

text \<open>The root-schema rendering, block by block.\<close>

lemma schema_blocks:
  "schema c s =
     html_line c (html_keyword c ''schema'' @ '' {'') @
     (case queryType s of
        None \<Rightarrow> []
      | Some q \<Rightarrow> root_block c ''query'' q (url c (Some (as_ref q)))) @
     (case mutationType s of
        None \<Rightarrow> []
      | Some m \<Rightarrow> root_block c ''mutation'' m (url c (Some (as_ref m)))) @
     (case subscriptionType s of
        None \<Rightarrow> []
      | Some u \<Rightarrow> root_block c ''subscription'' u (url c (map_option as_ref (mutationType s)))) @
     html_line c ''}''"
  unfolding schema_def Let_def root_block_description join_empty_sep
  by (cases "queryType s"; cases "mutationType s"; cases "subscriptionType s"; simp)

text \<open>Short texts are left as they are by the greedy wrapper.\<close>

lemma wrap_greedy_examples:
  "wrap_greedy 80 ''The id'' = ''The id''"
  "wrap_greedy 80 ''Find a user'' = ''Find a user''"
  "wrap_greedy 80 ''id: [Not documented]'' = ''id: [Not documented]''"
  "wrap_greedy 80 ''id: The id'' = ''id: The id''"
  "wrap_greedy 80 ''id: '' = ''id:''"
  "wrap_greedy 80 ''Live events'' = ''Live events''"
  by (simp_all add: wrap_greedy_def)

section \<open>The root-schema renderer\<close>

text \<open>
  Claim C1. Whenever the schema defines a subscription root type, the subscription line
  of the rendered root schema shows the subscription type as its identifier, but the
  locator of its cross-reference is the one requested for \<^verbatim>\<open>schema.mutationType\<close>.
  The rendering ends with that line and the closing brace, and it stays the same under any
  other locator that agrees with the given one on the query and the mutation root: the
  locator of the subscription type itself is never consulted.
\<close>

theorem schema_subscription_locator:
  assumes "subscriptionType s = Some u"
  shows "(\<exists>before. schema c s = before @
            html_line c (html_tab c (html_property c ''subscription'' @ '': '' @
              html_useIdentifier c (as_ref u) (url c (map_option as_ref (mutationType s))))) @
            html_line c ''}'')
       \<and> (\<forall>locator.
             locator (map_option as_ref (queryType s)) = url c (map_option as_ref (queryType s))
             \<and> locator (map_option as_ref (mutationType s)) =
                 url c (map_option as_ref (mutationType s))
            \<longrightarrow> schema (c\<lparr>url := locator\<rparr>) s = schema c s)"
proof (intro conjI allI impI)
  let ?head = "html_line c (html_keyword c ''schema'' @ '' {'') @
     (case queryType s of
        None \<Rightarrow> []
      | Some q \<Rightarrow> root_block c ''query'' q (url c (Some (as_ref q)))) @
     (case mutationType s of
        None \<Rightarrow> []
      | Some m \<Rightarrow> root_block c ''mutation'' m (url c (Some (as_ref m)))) @
     html_line c [] @
     concat (map (\<lambda>l. html_line c (html_tab c l)) (description c (t_description u)))"
  show "\<exists>before. schema c s = before @
            html_line c (html_tab c (html_property c ''subscription'' @ '': '' @
              html_useIdentifier c (as_ref u) (url c (map_option as_ref (mutationType s))))) @
            html_line c ''}''"
    by (rule exI[where x = ?head]) (simp add: schema_blocks assms root_block_description)
next
  fix locator
  assume same:
    "locator (map_option as_ref (queryType s)) = url c (map_option as_ref (queryType s))
     \<and> locator (map_option as_ref (mutationType s)) = url c (map_option as_ref (mutationType s))"
  show "schema (c\<lparr>url := locator\<rparr>) s = schema c s"
    using same assms
    by (cases "queryType s"; cases "mutationType s")
       (simp_all add: schema_blocks root_block_description description_url)
qed

text \<open>
  With a locator per type, the subscription root \<^verbatim>\<open>S\<close> of the schema \<open>roots\<close> is linked
  to the page of the mutation root \<^verbatim>\<open>M\<close>.
\<close>

theorem schema_subscription_locator_witness:
  "subscriptionType roots = Some Subscription
   \<and> (\<exists>before. schema linked roots = before @ ''  subscription: S<M.html>\<newline>}\<newline>'')"
proof -
  have sub: "subscriptionType roots = Some Subscription"
    by (simp add: roots_def)
  have line:
    "html_line linked (html_tab linked (html_property linked ''subscription'' @ '': '' @
       html_useIdentifier linked (as_ref Subscription)
         (url linked (map_option as_ref (mutationType roots))))) @
     html_line linked ''}'' = ''  subscription: S<M.html>\<newline>}\<newline>''"
    by (simp add: roots_def Subscription_def linked_def markup_def page_of_def named_def
          as_ref_def newline_def)
  from schema_subscription_locator[OF sub, of linked] sub show ?thesis
    unfolding line by blast
qed

text \<open>
  Claim C9. The root-schema renderer emits the line \<^verbatim>\<open>schema {\<close>, then for each of query,
  mutation and subscription, in this order, one block if that root operation type is
  defined and nothing if it is not, then the closing brace. A block is a blank line, the
  root type's wrapped description as indented comment lines, and one indented line
  \<^verbatim>\<open>query: <Type>\<close>, \<^verbatim>\<open>mutation: <Type>\<close> or \<^verbatim>\<open>subscription: <Type>\<close>. The schema \<open>roots\<close>
  defines all three roots and describes the subscription root; the schema \<open>demo\<close> defines
  the query root only.
\<close>

theorem schema_root_lines:
  "schema c s =
     html_line c (html_keyword c ''schema'' @ '' {'') @
     (case queryType s of
        None \<Rightarrow> []
      | Some q \<Rightarrow> root_block c ''query'' q (url c (Some (as_ref q)))) @
     (case mutationType s of
        None \<Rightarrow> []
      | Some m \<Rightarrow> root_block c ''mutation'' m (url c (Some (as_ref m)))) @
     (case subscriptionType s of
        None \<Rightarrow> []
      | Some u \<Rightarrow> root_block c ''subscription'' u (url c (map_option as_ref (mutationType s)))) @
     html_line c ''}''
   \<and> schema linked roots =
       ''schema {\<newline>\<newline>  query: Q<Q.html>\<newline>\<newline>  mutation: M<M.html>\<newline>\<newline>  # Live events\<newline>  subscription: S<M.html>\<newline>}\<newline>''
   \<and> schema plain demo = ''schema {\<newline>\<newline>  query: Query\<newline>}\<newline>''"
proof (intro conjI)
  show "schema c s =
     html_line c (html_keyword c ''schema'' @ '' {'') @
     (case queryType s of
        None \<Rightarrow> []
      | Some q \<Rightarrow> root_block c ''query'' q (url c (Some (as_ref q)))) @
     (case mutationType s of
        None \<Rightarrow> []
      | Some m \<Rightarrow> root_block c ''mutation'' m (url c (Some (as_ref m)))) @
     (case subscriptionType s of
        None \<Rightarrow> []
      | Some u \<Rightarrow> root_block c ''subscription'' u (url c (map_option as_ref (mutationType s)))) @
     html_line c ''}''"
    by (rule schema_blocks)
  show "schema linked roots =
       ''schema {\<newline>\<newline>  query: Q<Q.html>\<newline>\<newline>  mutation: M<M.html>\<newline>\<newline>  # Live events\<newline>  subscription: S<M.html>\<newline>}\<newline>''"
    by (simp add: schema_def Let_def description_def MAX_CODE_LEN_def roots_def
          Subscription_def named_def as_ref_def linked_def markup_def page_of_def
          wrap_greedy_examples newline_def)
  show "schema plain demo = ''schema {\<newline>\<newline>  query: Query\<newline>}\<newline>''"
    by (simp add: schema_def Let_def description_def demo_def named_def as_ref_def
          plain_def markup_def newline_def)
qed

section \<open>The dispatcher\<close>

text \<open>
  Claim C2, amended. For every schema and every non-empty target name that is neither the
  name of a directive nor the name of a type of the schema, the dispatcher throws the
  \<^verbatim>\<open>TypeError\<close> whose message is \<^verbatim>\<open>Unexpected type: \<close> followed by the requested name.
  The empty string is taken for a missing name: for it the dispatcher returns the
  root-schema rendering, for every schema.
\<close>

theorem code_unknown_target:
  "(n \<noteq> [] \<and> n \<notin> set (map d_name (directives document))
      \<and> n \<notin> set (map t_name (types document))
     \<longrightarrow> code c document (Some n) = Inl (TypeError (''Unexpected type: '' @ n)))
   \<and> code c document (Some []) = Inr (schema c document)"
  by (simp add: code_def find_absent)

theorem code_unknown_target_witness:
  "''User'' \<noteq> [] \<and> ''User'' \<notin> set (map d_name (directives demo))
   \<and> ''User'' \<notin> set (map t_name (types demo))
   \<and> code plain demo (Some ''User'') = Inl (TypeError ''Unexpected type: User'')"
proof -
  have a: "''User'' \<noteq> []" by simp
  have b: "''User'' \<notin> set (map d_name (directives demo))" by (simp add: demo_def)
  have c: "''User'' \<notin> set (map t_name (types demo))" by (simp add: demo_def named_def)
  from code_unknown_target[of "''User''" demo plain] a b c show ?thesis by simp
qed

text \<open>
  The empty name is a target name that matches no directive and no type of \<open>demo\<close>, and
  the dispatcher does not fail on it: the guard \<^verbatim>\<open>if (!buildForType)\<close> takes it for a
  missing name and the root schema is rendered.
\<close>

theorem code_empty_name_counterexample:
  "[] \<notin> set (map d_name (directives demo)) \<and> [] \<notin> set (map t_name (types demo))
   \<and> code plain demo (Some []) = Inr ''schema {\<newline>\<newline>  query: Query\<newline>}\<newline>''"
  by (simp add: demo_def named_def code_def schema_blocks root_block_def
        plain_def markup_def as_ref_def newline_def)

text \<open>
  Claim C10. The directive collection is searched before the type collection. In a schema
  whose directives have non-empty names, as every GraphQL name is, a target name that is
  the name of a directive is rendered by the directive renderer, applied to the first
  directive of that name. The result is the same whatever the type collection holds, so
  also when a type has the same name: the type renderers are not reached.
\<close>

theorem code_directive_first:
  assumes "[] \<notin> set (map d_name (directives document))"
    and "n \<in> set (map d_name (directives document))"
  shows "\<exists>d. find (\<lambda>d. d_name d = n) (directives document) = Some d
           \<and> (\<forall>ts. code c (document\<lparr>types := ts\<rparr>) (Some n) = Inr (directive c d))
           \<and> code c document (Some n) = Inr (directive c d)"
proof -
  from assms have n: "n \<noteq> []" by blast
  from find_present[OF assms(2)] obtain d
    where d: "find (\<lambda>d. d_name d = n) (directives document) = Some d" by blast
  with n show ?thesis by (simp add: code_def)
qed

theorem code_directive_first_witness:
  "[] \<notin> set (map d_name (directives demo)) \<and> ''Node'' \<in> set (map d_name (directives demo))
   \<and> ''Node'' \<in> set (map t_name (types demo))
   \<and> code plain demo (Some ''Node'') = Inr ''directive @Node on FIELD\<newline>''"
proof -
  have a: "[] \<notin> set (map d_name (directives demo))" by (simp add: demo_def)
  have b: "''Node'' \<in> set (map d_name (directives demo))" by (simp add: demo_def)
  have c: "''Node'' \<in> set (map t_name (types demo))" by (simp add: demo_def named_def)
  from code_directive_first[OF a b, of plain] obtain d
    where "find (\<lambda>d. d_name d = ''Node'') (directives demo) = Some d"
      and "code plain demo (Some ''Node'') = Inr (directive plain d)" by blast
  then have "code plain demo (Some ''Node'') = Inr ''directive @Node on FIELD\<newline>''"
    by (auto simp add: demo_def directive_def arguments_def plain_def markup_def newline_def)
  with a b c show ?thesis by simp
qed

section \<open>Arguments, deprecation and descriptions\<close>

text \<open>
  Claim C3. The argument list of a field with the one argument \<^verbatim>\<open>id: ID\<close> should render
  as \<^verbatim>\<open>(id: ID)\<close>. The renderer passes every argument through \<open>inputValue\<close>, which
  yields complete indented lines, the argument's description comments first. With the
  plain-text collaborator the argument list is therefore spread over several lines, and a
  documented argument carries its description inside the parentheses.
\<close>

theorem arguments_embed_input_value:
  "arguments plain [id_arg (Some ''The id'')] = ''(  # The id\<newline>  id: ID\<newline>)''
   \<and> arguments plain [id_arg None] = ''(  id: ID\<newline>)''"
  by (simp add: arguments_def inputValue_def description_def id_arg_def plain_def markup_def
        MAX_CODE_LEN_def wrap_greedy_examples newline_def)

text \<open>
  Claim C4, amended. For every field or enum value: if it is not deprecated the marker is
  empty; if it is deprecated and the reason is \<^verbatim>\<open>null\<close> or the empty string the marker is
  the bare keyword \<^verbatim>\<open>@deprecated\<close>; if it is deprecated with a non-empty reason \<open>R\<close> the
  marker is the keyword followed by \<^verbatim>\<open>( reason: \<close>, the value markup of \<open>R\<close> between two
  double quotes and one space, and \<^verbatim>\<open> )\<close>. The reason is embedded as it is, with no
  escaping.
\<close>

theorem deprecated_marker:
  "deprecated c False r = []
   \<and> deprecated c True None = html_keyword c ''@deprecated''
   \<and> deprecated c True (Some []) = html_keyword c ''@deprecated''
   \<and> (R \<noteq> [] \<longrightarrow>
        deprecated c True (Some R) =
          html_keyword c ''@deprecated'' @ ''( reason: '' @
          html_value c ([CHR 0x22] @ R @ [CHR 0x22] @ '' '') @ '' )'')"
  by (simp add: deprecated_def)

theorem deprecated_marker_witness:
  \<open>''use ACTIVE'' \<noteq> []
   \<and> deprecated plain True (Some ''use ACTIVE'') = ''@deprecated( reason: "use ACTIVE"  )''\<close>
  using deprecated_marker[of plain None "''use ACTIVE''"]
  by (simp add: plain_def markup_def)

text \<open>
  The marker of a value deprecated with the reason \<^verbatim>\<open>x\<close> does not include the text
  \<^verbatim>\<open>(reason: "x")\<close>: the renderer pads the clause with spaces.
\<close>

theorem deprecated_reason_counterexample:
  \<open>deprecated plain True (Some ''x'') = ''@deprecated( reason: "x"  )''
   \<and> \<not> sublist ''(reason: "x")'' (deprecated plain True (Some ''x''))\<close>
  by (simp add: deprecated_def plain_def markup_def sublist_code)

text \<open>
  Claim C5, amended. A construct whose description is \<^verbatim>\<open>null\<close> or the empty string has an
  empty description-comment sequence. Arguments differ in their entry of the arguments
  comment block: an argument whose description is \<^verbatim>\<open>null\<close> has the comment rendering of
  the wrapped text \<^verbatim>\<open><name>: [Not documented]\<close>; an argument whose description is a
  string, the empty string included, has the comment rendering of the wrapped text
  \<^verbatim>\<open><name>: <description>\<close>, without the fallback. In every case the entry has at least
  one line.
\<close>

theorem description_fallback:
  "description c None = []
   \<and> description c (Some []) = []
   \<and> (iv_description arg = None \<longrightarrow>
        argumentDescription c arg =
          map (html_comment c)
            (split_nl (wrap c MAX_CODE_LEN
               (html_highlight c (iv_name arg) @ '': '' @
                ''['' @ html_highlight c ''Not documented'' @ '']''))))
   \<and> (\<forall>d. iv_description arg = Some d \<longrightarrow>
        argumentDescription c arg =
          map (html_comment c)
            (split_nl (wrap c MAX_CODE_LEN (html_highlight c (iv_name arg) @ '': '' @ d))))
   \<and> argumentDescription c arg \<noteq> []"
  by (cases "iv_description arg")
     (simp_all add: description_None description_empty argumentDescription_def
        description_text split_nl_nonempty)

theorem description_fallback_witness:
  "iv_description (id_arg None) = None
   \<and> description plain None = []
   \<and> argumentDescription plain (id_arg None) = [''# id: [Not documented]'']
   \<and> iv_description (id_arg (Some ''The id'')) = Some ''The id''
   \<and> argumentDescription plain (id_arg (Some ''The id'')) = [''# id: The id'']"
proof -
  from description_fallback[of plain "id_arg None"]
  have a: "description plain None = []
      \<and> argumentDescription plain (id_arg None) = [''# id: [Not documented]'']"
    by (simp add: id_arg_def plain_def markup_def MAX_CODE_LEN_def wrap_greedy_examples
          newline_def)
  from description_fallback[of plain "id_arg (Some ''The id'')"]
  have b: "argumentDescription plain (id_arg (Some ''The id'')) = [''# id: The id'']"
    by (simp add: id_arg_def plain_def markup_def MAX_CODE_LEN_def wrap_greedy_examples
          newline_def)
  from a b show ?thesis by (simp add: id_arg_def)
qed

text \<open>
  An argument whose description is the empty string has no description in the sense of
  \<open>description\<close>, which renders nothing for it; yet its entry in the arguments comment
  block is \<^verbatim>\<open># id:\<close>, without the text \<^verbatim>\<open>[Not documented]\<close>: \<open>argumentDescription\<close>
  compares with \<^verbatim>\<open>null\<close> only.
\<close>

theorem description_empty_argument_counterexample:
  "iv_description (id_arg (Some [])) = Some []
   \<and> description plain (iv_description (id_arg (Some []))) = []
   \<and> argumentDescription plain (id_arg (Some [])) = [''# id:'']
   \<and> \<not> sublist ''[Not documented]'' (concat (argumentDescription plain (id_arg (Some []))))"
  by (simp add: argumentDescription_def description_def id_arg_def plain_def markup_def
        MAX_CODE_LEN_def wrap_greedy_examples newline_def sublist_code)

text \<open>
  Claim C8. In the rendering of a field, the description block and the arguments
  description block are separated by exactly one blank comment line when both are
  non-empty, and by nothing when at most one of them is. The description block is
  non-empty exactly when the field has a non-empty description, the arguments block exactly
  when the field has arguments. The field \<^verbatim>\<open>user\<close> with a description and one undocumented
  argument shows the separator as its second line.
\<close>

theorem field_separator:
  "field c f =
     concat (map (\<lambda>l. html_line c (html_tab c l)) (description c (f_description f))) @
     (if description c (f_description f) \<noteq> [] \<and> argumentsDescription c (f_args f) \<noteq> []
      then html_line c (html_tab c (html_comment c [])) else []) @
     concat (map (\<lambda>l. html_line c (html_tab c l)) (argumentsDescription c (f_args f))) @
     html_line c (html_tab c
       (html_property c (f_name f) @ arguments c (f_args f) @ '': '' @
        html_useIdentifier c (f_type f) (url c (Some (f_type f))) @ '' '' @
        deprecated c (f_isDeprecated f) (f_deprecationReason f)))
   \<and> (description c (f_description f) \<noteq> []) =
       (\<exists>body. f_description f = Some body \<and> body \<noteq> [])
   \<and> (argumentsDescription c (f_args f) \<noteq> []) = (f_args f \<noteq> [])
   \<and> field plain (user_field (Some ''Find a user'') [id_arg None]) =
       ''  # Find a user\<newline>  # \<newline>  # Arguments\<newline>  # id: [Not documented]\<newline>  user(  id: ID\<newline>): User \<newline>''"
proof (intro conjI)
  show "field c f =
     concat (map (\<lambda>l. html_line c (html_tab c l)) (description c (f_description f))) @
     (if description c (f_description f) \<noteq> [] \<and> argumentsDescription c (f_args f) \<noteq> []
      then html_line c (html_tab c (html_comment c [])) else []) @
     concat (map (\<lambda>l. html_line c (html_tab c l)) (argumentsDescription c (f_args f))) @
     html_line c (html_tab c
       (html_property c (f_name f) @ arguments c (f_args f) @ '': '' @
        html_useIdentifier c (f_type f) (url c (Some (f_type f))) @ '' '' @
        deprecated c (f_isDeprecated f) (f_deprecationReason f)))"
    by (simp add: field_def Let_def join_empty_sep)
  show "(description c (f_description f) \<noteq> []) =
       (\<exists>body. f_description f = Some body \<and> body \<noteq> [])"
    by (rule description_nonempty)
  show "(argumentsDescription c (f_args f) \<noteq> []) = (f_args f \<noteq> [])"
    by (rule argumentsDescription_nonempty)
  show "field plain (user_field (Some ''Find a user'') [id_arg None]) =
       ''  # Find a user\<newline>  # \<newline>  # Arguments\<newline>  # id: [Not documented]\<newline>  user(  id: ID\<newline>): User \<newline>''"
    by (simp add: field_def argumentsDescription_def argumentDescription_def arguments_def
          inputValue_def description_def deprecated_def user_field_def id_arg_def plain_def
          markup_def MAX_CODE_LEN_def wrap_greedy_examples newline_def)
qed

section \<open>Object and union types\<close>

text \<open>
  Claim C6. The header of an object type with an empty interface list has no
  \<^verbatim>\<open>implements\<close> clause. When the type has interfaces, the header has the keyword
  \<^verbatim>\<open>implements\<close> followed by the references to the interfaces in declared order, joined
  by comma and space. The renderer decides on the length of the joined text, so the second
  part is stated for lists in which some reference renders as non-empty text.
\<close>

theorem object_implements:
  "(t_interfaces t = [] \<longrightarrow>
      object c t =
        html_line c (html_keyword c ''type'' @ '' '' @ html_identifier c (as_ref t) @ '' {'') @
        fields c t @ html_line c ''}'')
   \<and> ((\<exists>i \<in> set (t_interfaces t). html_useIdentifier c i (url c (Some i)) \<noteq> []) \<longrightarrow>
      object c t =
        html_line c
          (html_keyword c ''type'' @ '' '' @ html_identifier c (as_ref t) @ '' '' @
           html_keyword c ''implements'' @ '' '' @
           join '', '' (map (\<lambda>i. html_useIdentifier c i (url c (Some i))) (t_interfaces t)) @
           '' {'') @
        fields c t @ html_line c ''}'')"
proof (intro conjI impI)
  assume "t_interfaces t = []"
  then show "object c t =
        html_line c (html_keyword c ''type'' @ '' '' @ html_identifier c (as_ref t) @ '' {'') @
        fields c t @ html_line c ''}''"
    by (simp add: object_def)
next
  assume "\<exists>i \<in> set (t_interfaces t). html_useIdentifier c i (url c (Some i)) \<noteq> []"
  then obtain i
    where i: "i \<in> set (t_interfaces t)" "html_useIdentifier c i (url c (Some i)) \<noteq> []"
    by blast
  have "join '', '' (map (\<lambda>i. html_useIdentifier c i (url c (Some i))) (t_interfaces t)) \<noteq> []"
  proof
    assume "join '', '' (map (\<lambda>i. html_useIdentifier c i (url c (Some i))) (t_interfaces t)) = []"
    from join_eq_Nil[OF this, of "html_useIdentifier c i (url c (Some i))"] i show False
      by simp
  qed
  then show "object c t =
        html_line c
          (html_keyword c ''type'' @ '' '' @ html_identifier c (as_ref t) @ '' '' @
           html_keyword c ''implements'' @ '' '' @
           join '', '' (map (\<lambda>i. html_useIdentifier c i (url c (Some i))) (t_interfaces t)) @
           '' {'') @
        fields c t @ html_line c ''}''"
    by (simp add: object_def Let_def)
qed

theorem object_implements_witness:
  "t_interfaces (named OBJECT ''Human'') = []
   \<and> object plain (named OBJECT ''Human'') = ''type Human {\<newline>\<newline>}\<newline>''
   \<and> (\<exists>i \<in> set (t_interfaces Droid). html_useIdentifier plain i (url plain (Some i)) \<noteq> [])
   \<and> object plain Droid = ''type Droid implements A, B {\<newline>\<newline>}\<newline>''"
proof -
  have a: "t_interfaces (named OBJECT ''Human'') = []" by (simp add: named_def)
  have b: "\<exists>i \<in> set (t_interfaces Droid). html_useIdentifier plain i (url plain (Some i)) \<noteq> []"
    by (simp add: Droid_def named_def plain_def markup_def)
  have f: "fields plain (named OBJECT ''Human'') = [newline]" "fields plain Droid = [newline]"
    by (simp_all add: fields_def Droid_def named_def plain_def markup_def)
  from object_implements[of "named OBJECT ''Human''" plain] a
  have h: "object plain (named OBJECT ''Human'') = ''type Human {\<newline>\<newline>}\<newline>''"
    by (simp add: f) (simp add: named_def as_ref_def plain_def markup_def newline_def)
  from object_implements[of Droid plain] b
  have d: "object plain Droid = ''type Droid implements A, B {\<newline>\<newline>}\<newline>''"
    by (simp add: f) (simp add: Droid_def named_def as_ref_def plain_def markup_def newline_def)
  from a b h d show ?thesis by blast
qed

text \<open>
  Claim C7. A union type renders as one line: the keyword \<^verbatim>\<open>union\<close>, the type's identifier,
  \<^verbatim>\<open> = \<close>, and the references to the possible types in declared order, each after the
  first preceded by \<^verbatim>\<open> | \<close>. The possible types \<^verbatim>\<open>[Cat, Dog]\<close> of \<^verbatim>\<open>Pet\<close> render as
  \<^verbatim>\<open>union Pet = Cat | Dog\<close>.
\<close>

theorem union_declared_order:
  "union c t =
     html_line c
       (html_keyword c ''union'' @ '' '' @ html_identifier c (as_ref t) @ '' = '' @
        (case t_possibleTypes t of
           [] \<Rightarrow> []
         | p # ps \<Rightarrow>
             html_useIdentifier c p (url c (Some p)) @
             concat (map (\<lambda>q. '' | '' @ html_useIdentifier c q (url c (Some q))) ps)))
   \<and> union plain Pet = ''union Pet = Cat | Dog\<newline>''"
proof
  show "union c t =
     html_line c
       (html_keyword c ''union'' @ '' '' @ html_identifier c (as_ref t) @ '' = '' @
        (case t_possibleTypes t of
           [] \<Rightarrow> []
         | p # ps \<Rightarrow>
             html_useIdentifier c p (url c (Some p)) @
             concat (map (\<lambda>q. '' | '' @ html_useIdentifier c q (url c (Some q))) ps)))"
    by (cases "t_possibleTypes t") (simp_all add: union_def join_Cons comp_def)
  show "union plain Pet = ''union Pet = Cat | Dog\<newline>''"
    by (simp add: union_def plain_def markup_def Pet_def named_def as_ref_def newline_def)
qed

end
